theory Spec2Isabelle
  imports Complex_Main
begin

section \<open>Workflow engine (WorkflowEngine.ts)\<close>

text \<open>
  The engine keeps its workflows in a \<open>Map\<close> from workflow id to a mutable \<open>Workflow\<close>
  object. The model passes the engine state explicitly: an operation takes the engine and
  returns the engine after the call, together with the error the call threw, if any
  (\<open>None\<close>: the promise resolved). A mutation made before a \<open>throw\<close> stays in the
  returned engine, as it stays in the JavaScript objects.

  JavaScript numbers are modelled exactly: counters as \<open>nat\<close>, instants (\<open>Date\<close>, in
  milliseconds) as \<open>int\<close>, fractions as \<open>rat\<close>; rounding errors of IEEE doubles
  are not modelled. \<open>new Date()\<close> is the argument \<open>now\<close> of an operation, and
  \<open>crypto.randomUUID()\<close> is the argument \<open>uuid\<close>: \<open>uuid 0\<close> is the first
  identifier drawn by the call, \<open>uuid 1\<close> the second, and so on. The context store is an
  external collaborator; \<open>ctx sid\<close> tells whether its calls for session \<open>sid\<close>
  return normally (they throw when the session is unknown or cannot be saved). Event
  emission has no listener inside the engine and is left out, as are the fields of a step
  that the engine neither reads nor writes (\<open>assignee\<close>, \<open>inputs\<close>, \<open>error\<close>,
  \<open>retryCount\<close>, \<open>maxRetries\<close>). Every workflow owns its step objects: a caller that
  passes one \<open>customSteps\<close> array to two workflows is outside the model.
\<close>

datatype WorkflowState =
  W_draft | W_ready | W_running | W_paused | W_blocked | W_review | W_completed | W_failed
  | W_cancelled

datatype StepStatus = S_pending | S_ready | S_running | S_completed | S_failed | S_skipped

datatype StepType = ai_task | human_review | automated | decision | parallel

datatype Trigger =
  T_start | T_pause | T_resume | T_complete | T_fail | T_block | T_unblock | T_cancel
  | T_review | T_approve

datatype WorkflowType = feature | bugfix | refactor | research | deployment | custom

datatype Priority = low | medium | high | critical

text \<open>
  The engine throws plain \<open>Error\<close> objects; the constructors name their messages:
  \<open>Workflow ... not found\<close>, \<open>Step ... not found\<close>, \<open>Dependencies not met for step ...\<close>,
  \<open>Invalid transition: ...\<close>, \<open>Transition conditions not met: ...\<close>, and an error
  thrown by the context store.
\<close>

datatype engine_error =
  UnknownWorkflow | UnknownStep | DependenciesNotMet | InvalidTransition | GuardNotMet
  | ContextStoreError

record WorkflowStep =
  step_id :: string
  step_name :: string
  step_description :: string
  step_type :: StepType
  dependencies :: "string list option"
  outputs :: "string option"
  step_status :: StepStatus
  step_startedAt :: "int option"
  step_completedAt :: "int option"

record Metadata =
  createdBy :: string
  createdAt :: int
  updatedAt :: int
  estimatedDuration :: "rat option"
  actualDuration :: "int option"
  priority :: Priority

record Metrics =
  stepsCompleted :: nat
  stepsTotal :: nat
  progressPercentage :: int
  averageStepDuration :: rat
  blockerCount :: nat

record Workflow =
  wf_id :: string
  projectId :: string
  wf_name :: string
  wf_description :: string
  wf_type :: WorkflowType
  state :: WorkflowState
  steps :: "WorkflowStep list"
  currentStepId :: "string option"
  metadata :: Metadata
  sessionId :: "string option"
  metrics :: Metrics

record WorkflowTemplate =
  tpl_id :: string
  tpl_name :: string
  tpl_description :: string
  tpl_type :: WorkflowType
  tpl_steps :: "(string \<times> string \<times> StepType \<times> string list) list"
  tpl_estimatedDuration :: nat
  requiredInputs :: "string list"
  expectedOutputs :: "string list"

record WorkflowTransition =
  from_state :: WorkflowState
  to_state :: WorkflowState
  trigger :: Trigger
  condition :: "(Workflow \<Rightarrow> bool) option"
  action :: "((string \<Rightarrow> bool) \<Rightarrow> int \<Rightarrow> Workflow \<Rightarrow> engine_error option \<times> Workflow) option"

record engine =
  workflows :: "string \<rightharpoonup> Workflow"

subsection \<open>Helpers for JavaScript idioms\<close>

text \<open>\<open>Math.round\<close>: the nearest integer, a half rounded up.\<close>

definition js_round :: "rat \<Rightarrow> int" where
  "js_round x = \<lfloor>x + 1 / 2\<rfloor>"

text \<open>\<open>Array.prototype.findIndex\<close>: the index of the first element satisfying \<open>P\<close>.\<close>

fun findIndex :: "('a \<Rightarrow> bool) \<Rightarrow> 'a list \<Rightarrow> nat option" where
  "findIndex P [] = None"
| "findIndex P (x # xs) =
     (if P x then Some 0 else (case findIndex P xs of None \<Rightarrow> None | Some i \<Rightarrow> Some (Suc i)))"

text \<open>A non-empty string is truthy; \<open>undefined\<close> and the empty string are falsy.\<close>

definition truthy :: "string option \<Rightarrow> bool" where
  "truthy s = (case s of None \<Rightarrow> False | Some v \<Rightarrow> v \<noteq> [])"

text \<open>Assignment to a field of the step object at index \<open>i\<close> of \<open>workflow.steps\<close>.\<close>

definition setStatus :: "nat \<Rightarrow> StepStatus \<Rightarrow> Workflow \<Rightarrow> Workflow" where
  "setStatus i st w = w\<lparr>steps := (steps w)[i := (steps w ! i)\<lparr>step_status := st\<rparr>]\<rparr>"

subsection \<open>Dependencies and readiness\<close>

text \<open>
  \<open>checkDependencies\<close>: a step without dependencies is satisfied; otherwise every
  dependency must resolve, through \<open>steps.find(s => s.name === depId || s.id === depId)\<close>,
  to a step whose status is \<open>completed\<close>.
\<close>

definition depCompleted :: "Workflow \<Rightarrow> string \<Rightarrow> bool" where
  "depCompleted w depId =
     (case find (\<lambda>s. step_name s = depId \<or> step_id s = depId) (steps w) of
        None \<Rightarrow> False
      | Some depStep \<Rightarrow> step_status depStep = S_completed)"

definition checkDependencies :: "Workflow \<Rightarrow> WorkflowStep \<Rightarrow> bool" where
  "checkDependencies w step =
     (case dependencies step of
        None \<Rightarrow> True
      | Some deps \<Rightarrow> if deps = [] then True else list_all (depCompleted w) deps)"

text \<open>
  \<open>validateWorkflow\<close>: \<open>s.name && s.type\<close> asks for a non-empty name; the type of a
  step, one of the five literals, is always truthy.
\<close>

definition validateWorkflow :: "Workflow \<Rightarrow> bool" where
  "validateWorkflow w = (length (steps w) > 0 \<and> list_all (\<lambda>s. step_name s \<noteq> []) (steps w))"

definition allStepsComplete :: "Workflow \<Rightarrow> bool" where
  "allStepsComplete w =
     list_all (\<lambda>s. step_status s = S_completed \<or> step_status s = S_skipped) (steps w)"

text \<open>
  \<open>startNextStep\<close>: the first step that is \<open>ready\<close>, or \<open>pending\<close> with its
  dependencies met, is set to \<open>ready\<close>.
\<close>

definition startNextStep :: "Workflow \<Rightarrow> Workflow" where
  "startNextStep w =
     (case findIndex (\<lambda>s. step_status s = S_ready \<or>
                            (step_status s = S_pending \<and> checkDependencies w s)) (steps w) of
        None \<Rightarrow> w
      | Some i \<Rightarrow> setStatus i S_ready w)"

text \<open>
  \<open>prepareWorkflow\<close>: the loop visits the steps in order and sets each pending step whose
  dependencies are met to \<open>ready\<close>; \<open>markReady i\<close> is its body at index \<open>i\<close>. With a
  ready step the workflow goes straight on to \<open>running\<close>.
\<close>

definition markReady :: "Workflow \<Rightarrow> nat \<Rightarrow> Workflow" where
  "markReady w i =
     (let step = steps w ! i in
      if checkDependencies w step \<and> step_status step = S_pending then setStatus i S_ready w
      else w)"

definition prepareWorkflow :: "Workflow \<Rightarrow> Workflow" where
  "prepareWorkflow w =
     (let w1 = foldl markReady w [0 ..< length (steps w)];
          hasReadySteps = list_ex (\<lambda>s. step_status s = S_ready) (steps w1)
      in if hasReadySteps then startNextStep (w1\<lparr>state := W_running\<rparr>) else w1)"

definition currentStepIndex :: "Workflow \<Rightarrow> nat option" where
  "currentStepIndex w =
     (if truthy (currentStepId w)
      then findIndex (\<lambda>s. Some (step_id s) = currentStepId w) (steps w) else None)"

text \<open>
  \<open>pauseCurrentStep\<close> changes nothing in the workflow; it reports the pause to the context
  store when the current step is running and a session is linked.
\<close>

definition pauseCurrentStep ::
  "(string \<Rightarrow> bool) \<Rightarrow> Workflow \<Rightarrow> engine_error option \<times> Workflow" where
  "pauseCurrentStep ctx w =
     (case currentStepIndex w of
        None \<Rightarrow> (None, w)
      | Some i \<Rightarrow>
          if step_status (steps w ! i) = S_running \<and> truthy (sessionId w) \<and> \<not> ctx (the (sessionId w))
          then (Some ContextStoreError, w) else (None, w))"

definition resumeCurrentStep ::
  "(string \<Rightarrow> bool) \<Rightarrow> Workflow \<Rightarrow> engine_error option \<times> Workflow" where
  "resumeCurrentStep ctx w =
     (case currentStepIndex w of
        None \<Rightarrow> (None, w)
      | Some i \<Rightarrow>
          let w1 = setStatus i S_running w in
          if truthy (sessionId w) \<and> \<not> ctx (the (sessionId w))
          then (Some ContextStoreError, w1) else (None, w1))"

definition handleBlocker :: "Workflow \<Rightarrow> Workflow" where
  "handleBlocker w = w\<lparr>metrics := (metrics w)\<lparr>blockerCount := blockerCount (metrics w) + 1\<rparr>\<rparr>"

definition resolveBlocker :: "Workflow \<Rightarrow> Workflow" where
  "resolveBlocker w = startNextStep w"

definition prepareReview :: "Workflow \<Rightarrow> Workflow" where
  "prepareReview w =
     (case estimatedDuration (metadata w) of
        None \<Rightarrow> w
      | Some d \<Rightarrow>
          if d = 0 then w
          else w\<lparr>metadata := (metadata w)\<lparr>actualDuration :=
                 Some (js_round (of_int (updatedAt (metadata w) - createdAt (metadata w)) / 60000))\<rparr>\<rparr>)"

definition completeWorkflow :: "int \<Rightarrow> Workflow \<Rightarrow> Workflow" where
  "completeWorkflow now w =
     w\<lparr>metadata := (metadata w)\<lparr>updatedAt := now\<rparr>,
       metrics := (metrics w)\<lparr>progressPercentage := 100\<rparr>\<rparr>"

definition handleFailure :: "int \<Rightarrow> Workflow \<Rightarrow> Workflow" where
  "handleFailure now w =
     (case currentStepIndex w of
        None \<Rightarrow> w
      | Some i \<Rightarrow>
          w\<lparr>steps := (steps w)[i := (steps w ! i)\<lparr>step_status := S_failed,
                                                  step_completedAt := Some now\<rparr>]\<rparr>)"

subsection \<open>The transition table\<close>

definition transitions :: "WorkflowTransition list" where
  "transitions =
    [\<lparr>from_state = W_draft, to_state = W_ready, trigger = T_start,
      condition = Some validateWorkflow,
      action = Some (\<lambda>ctx now w. (None, prepareWorkflow w))\<rparr>,
     \<lparr>from_state = W_ready, to_state = W_running, trigger = T_start,
      condition = None,
      action = Some (\<lambda>ctx now w. (None, startNextStep w))\<rparr>,
     \<lparr>from_state = W_ready, to_state = W_blocked, trigger = T_block,
      condition = None,
      action = Some (\<lambda>ctx now w. (None, handleBlocker w))\<rparr>,
     \<lparr>from_state = W_running, to_state = W_paused, trigger = T_pause,
      condition = None,
      action = Some (\<lambda>ctx now w. pauseCurrentStep ctx w)\<rparr>,
     \<lparr>from_state = W_paused, to_state = W_running, trigger = T_resume,
      condition = None,
      action = Some (\<lambda>ctx now w. resumeCurrentStep ctx w)\<rparr>,
     \<lparr>from_state = W_running, to_state = W_blocked, trigger = T_block,
      condition = None,
      action = Some (\<lambda>ctx now w. (None, handleBlocker w))\<rparr>,
     \<lparr>from_state = W_blocked, to_state = W_running, trigger = T_unblock,
      condition = None,
      action = Some (\<lambda>ctx now w. (None, resolveBlocker w))\<rparr>,
     \<lparr>from_state = W_running, to_state = W_review, trigger = T_review,
      condition = Some allStepsComplete,
      action = Some (\<lambda>ctx now w. (None, prepareReview w))\<rparr>,
     \<lparr>from_state = W_review, to_state = W_completed, trigger = T_approve,
      condition = None,
      action = Some (\<lambda>ctx now w. (None, completeWorkflow now w))\<rparr>,
     \<lparr>from_state = W_running, to_state = W_failed, trigger = T_fail,
      condition = None,
      action = Some (\<lambda>ctx now w. (None, handleFailure now w))\<rparr>,
     \<lparr>from_state = W_draft, to_state = W_cancelled, trigger = T_cancel,
      condition = None,
      action = Some (\<lambda>ctx now w. (None, w))\<rparr>]"

subsection \<open>Templates and creation\<close>

definition featureDevelopment :: WorkflowTemplate where
  "featureDevelopment =
    \<lparr>tpl_id = ''feature-development'', tpl_name = ''Feature Development'',
      tpl_description = ''Standard workflow for implementing new features'',
      tpl_type = feature,
      tpl_steps =
        [(''Requirements Analysis'', ''Analyze and clarify feature requirements'', ai_task, []),
         (''Technical Design'', ''Create technical design and architecture'', ai_task,
            [''Requirements Analysis'']),
         (''Implementation'', ''Implement the feature'', ai_task, [''Technical Design'']),
         (''Testing'', ''Write and run tests'', ai_task, [''Implementation'']),
         (''Code Review'', ''Review implementation'', human_review, [''Testing'']),
         (''Documentation'', ''Update documentation'', ai_task, [''Code Review''])],
      tpl_estimatedDuration = 240,
      requiredInputs = [''requirements'', ''projectContext''],
      expectedOutputs = [''implementation'', ''tests'', ''documentation'']\<rparr>"

definition bugFix :: WorkflowTemplate where
  "bugFix =
    \<lparr>tpl_id = ''bug-fix'', tpl_name = ''Bug Fix'',
      tpl_description = ''Workflow for fixing bugs'',
      tpl_type = bugfix,
      tpl_steps =
        [(''Reproduce Issue'', ''Reproduce and understand the bug'', ai_task, []),
         (''Root Cause Analysis'', ''Identify root cause'', ai_task, [''Reproduce Issue'']),
         (''Fix Implementation'', ''Implement the fix'', ai_task, [''Root Cause Analysis'']),
         (''Regression Testing'', ''Test fix and check for regressions'', ai_task,
            [''Fix Implementation'']),
         (''Verification'', ''Verify bug is fixed'', human_review, [''Regression Testing''])],
      tpl_estimatedDuration = 120,
      requiredInputs = [''bugDescription'', ''reproductionSteps''],
      expectedOutputs = [''fix'', ''tests'', ''verification'']\<rparr>"

definition researchTemplate :: WorkflowTemplate where
  "researchTemplate =
    \<lparr>tpl_id = ''research'', tpl_name = ''Research Task'',
      tpl_description = ''Workflow for research and investigation'',
      tpl_type = research,
      tpl_steps =
        [(''Define Scope'', ''Define research scope and objectives'', ai_task, []),
         (''Information Gathering'', ''Gather relevant information'', ai_task, [''Define Scope'']),
         (''Analysis'', ''Analyze findings'', ai_task, [''Information Gathering'']),
         (''Recommendations'', ''Formulate recommendations'', ai_task, [''Analysis'']),
         (''Report Generation'', ''Generate research report'', ai_task, [''Recommendations''])],
      tpl_estimatedDuration = 180,
      requiredInputs = [''researchQuestion'', ''context''],
      expectedOutputs = [''report'', ''recommendations'', ''evidence'']\<rparr>"

definition templates :: "string \<rightharpoonup> WorkflowTemplate" where
  "templates =
     [''feature-development'' \<mapsto> featureDevelopment, ''bug-fix'' \<mapsto> bugFix,
      ''research'' \<mapsto> researchTemplate]"

text \<open>
  A template step is spread into a new step object with a fresh id and status \<open>pending\<close>;
  the \<open>i\<close>-th step of the template takes the identifier \<open>uuid (i + 1)\<close>.
\<close>

definition instantiate ::
  "(nat \<Rightarrow> string) \<Rightarrow> nat \<Rightarrow> string \<times> string \<times> StepType \<times> string list \<Rightarrow> WorkflowStep" where
  "instantiate uuid i b =
     (case b of (n, d, t, deps) \<Rightarrow>
        \<lparr>step_id = uuid (i + 1), step_name = n, step_description = d, step_type = t,
         dependencies = Some deps, outputs = None, step_status = S_pending,
         step_startedAt = None, step_completedAt = None\<rparr>)"

record CreateParams =
  p_projectId :: string
  p_templateId :: "string option"
  p_name :: string
  p_description :: string
  p_type :: "WorkflowType option"
  p_priority :: "Priority option"
  p_customSteps :: "WorkflowStep list option"

definition createWorkflow ::
  "(nat \<Rightarrow> string) \<Rightarrow> int \<Rightarrow> engine \<Rightarrow> CreateParams \<Rightarrow> Workflow \<times> engine" where
  "createWorkflow uuid now eng params =
     (let workflowId = uuid 0;
          tpl = (if truthy (p_templateId params) then templates (the (p_templateId params))
                 else None);
          steps0 = (case tpl of
                      Some template \<Rightarrow>
                        map (\<lambda>(i, b). instantiate uuid i b)
                            (zip [0 ..< length (tpl_steps template)] (tpl_steps template))
                    | None \<Rightarrow> (case p_customSteps params of Some cs \<Rightarrow> cs | None \<Rightarrow> []));
          workflow =
            \<lparr>wf_id = workflowId, projectId = p_projectId params, wf_name = p_name params,
             wf_description = p_description params,
             wf_type = (case p_type params of Some t \<Rightarrow> t | None \<Rightarrow> custom),
             state = W_draft, steps = steps0, currentStepId = None,
             metadata = \<lparr>createdBy = ''system'', createdAt = now, updatedAt = now,
                         estimatedDuration = None, actualDuration = None,
                         priority = (case p_priority params of Some p \<Rightarrow> p | None \<Rightarrow> medium)\<rparr>,
             sessionId = None,
             metrics = \<lparr>stepsCompleted = 0, stepsTotal = length steps0, progressPercentage = 0,
                        averageStepDuration = 0, blockerCount = 0\<rparr>\<rparr>
      in (workflow, eng\<lparr>workflows := (workflows eng)(workflowId \<mapsto> workflow)\<rparr>))"

subsection \<open>Public operations\<close>

text \<open>
  \<open>transition\<close>: the rows matching the current state and the trigger are tried in table
  order; the first whose guard is absent or true sets \<open>state\<close> and \<open>updatedAt\<close> and runs
  its action. \<open>tryTransitions\<close> is the \<open>for\<close> loop over the matching rows.
\<close>

fun tryTransitions ::
  "(string \<Rightarrow> bool) \<Rightarrow> int \<Rightarrow> Workflow \<Rightarrow> WorkflowTransition list
     \<Rightarrow> engine_error option \<times> Workflow" where
  "tryTransitions ctx now w [] = (Some GuardNotMet, w)"
| "tryTransitions ctx now w (t # ts) =
     (if (case condition t of None \<Rightarrow> True | Some c \<Rightarrow> c w)
      then (let w1 = w\<lparr>state := to_state t, metadata := (metadata w)\<lparr>updatedAt := now\<rparr>\<rparr>
            in case action t of None \<Rightarrow> (None, w1) | Some act \<Rightarrow> act ctx now w1)
      else tryTransitions ctx now w ts)"

definition validTransitions :: "Workflow \<Rightarrow> Trigger \<Rightarrow> WorkflowTransition list" where
  "validTransitions w trg =
     filter (\<lambda>t. from_state t = state w \<and> trigger t = trg) transitions"

definition transitionWorkflow ::
  "(string \<Rightarrow> bool) \<Rightarrow> int \<Rightarrow> Workflow \<Rightarrow> Trigger \<Rightarrow> engine_error option \<times> Workflow" where
  "transitionWorkflow ctx now w trg =
     (if validTransitions w trg = [] then (Some InvalidTransition, w)
      else tryTransitions ctx now w (validTransitions w trg))"

definition store :: "engine \<Rightarrow> string \<Rightarrow> Workflow \<Rightarrow> engine" where
  "store eng workflowId w = eng\<lparr>workflows := (workflows eng)(workflowId \<mapsto> w)\<rparr>"

definition transition ::
  "(string \<Rightarrow> bool) \<Rightarrow> int \<Rightarrow> engine \<Rightarrow> string \<Rightarrow> Trigger \<Rightarrow> engine_error option \<times> engine" where
  "transition ctx now eng workflowId trg =
     (case workflows eng workflowId of
        None \<Rightarrow> (Some UnknownWorkflow, eng)
      | Some w \<Rightarrow>
          (case transitionWorkflow ctx now w trg of (e, w') \<Rightarrow> (e, store eng workflowId w')))"




text \<open>The engine after construction: no workflow yet.\<close>

definition newEngine :: engine where
  "newEngine = \<lparr>workflows = Map.empty\<rparr>"

section \<open>Agent orchestrator (AgentOrchestrator.ts)\<close>

text \<open>
  The registry is a \<open>Map\<close> from agent id to a mutable \<open>Agent\<close> object, read in insertion
  order by \<open>Array.from(this.agents.values())\<close>. Every key is the \<open>id\<close> of its value, so
  the model keeps the values in insertion order: a list of agents with distinct ids.
  The assignments are a \<open>Map\<close> whose order is never observed: a partial function. The
  orchestrator holds the workflow engine it was built with; the engine state is a field of
  the orchestrator state.

  Loads, rates and scores are exact rationals. JavaScript's division by zero yields
  \<open>Infinity\<close> or \<open>NaN\<close> where the model's yields \<open>0\<close>: the model stands for the code
  on agents with \<open>maxConcurrentTasks > 0\<close> only (the default agents have 3, 5 and 10).
  The fields \<open>availability\<close> and \<open>metadata\<close> of an agent, which no operation reads,
  and the collaboration sessions, which touch neither agents nor assignments, are left out.

  Each operation is modelled run to completion: the state is the one reached when the
  promise the operation started has settled, with no other call in between.
  \<open>updateAgentStatus\<close> starts the asynchronous \<open>reassignAgentTasks\<close> without awaiting
  it; the model gives the state once that pass has run.
\<close>

datatype AgentType = claude | gpt | copilot | cursor | gemini | llama | generic

datatype AgentStatus = A_available | A_busy | A_offline | A_error | A_maintenance

datatype Category =
  C_coding | C_analysis | C_writing | C_research | C_review | C_testing | C_deployment

datatype AssignmentStatus = K_assigned | K_in_progress | K_completed | K_failed | K_reassigned

datatype Strategy = round_robin | least_loaded | capability_based | performance_based | hybrid

text \<open>
  \<open>No suitable agent available for task\<close>, \<open>Task ... not found\<close>, \<open>Agent ... not found\<close>,
  an error thrown by the workflow engine, and an error thrown by the context store.
\<close>

datatype orch_error =
  NoAgentAvailable | UnknownTask | UnknownAgent | EngineError engine_error | ContextError

record AgentCapability =
  category :: Category
  skill :: string
  proficiency :: nat
  languages :: "string list option"
  frameworks :: "string list option"
  tools :: "string list option"

text \<open>\<open>Partial<AgentCapability>\<close>: the fields a requirement may give and the code reads.\<close>

record Requirement =
  r_category :: "Category option"
  r_skill :: "string option"
  r_languages :: "string list option"

record Performance =
  tasksCompleted :: nat
  averageCompletionTime :: rat
  successRate :: rat
  specialties :: "(string \<times> rat) list"

record Agent =
  agent_id :: string
  agent_type :: AgentType
  agent_name :: string
  agent_status :: AgentStatus
  capabilities :: "AgentCapability list"
  currentLoad :: rat
  maxConcurrentTasks :: nat
  activeTasks :: "string list"
  performance :: Performance

record TaskAssignment =
  taskId :: string
  agentId :: string
  ta_workflowId :: "string option"
  ta_stepId :: "string option"
  assignedAt :: int
  ta_startedAt :: "int option"
  ta_completedAt :: "int option"
  ta_status :: AssignmentStatus
  ta_priority :: Priority
  ta_estimatedDuration :: "rat option"
  ta_actualDuration :: "rat option"
  retryCount :: nat
  ta_output :: "string option"
  ta_error :: "string option"

record orchestrator =
  agents :: "Agent list"
  assignments :: "string \<rightharpoonup> TaskAssignment"
  loadBalancingStrategy :: Strategy
  agentQueue :: "string list"
  workflowEngine :: engine

record AssignParams =
  a_taskId :: string
  a_description :: string
  a_requiredCapabilities :: "Requirement list option"
  a_priority :: "Priority option"
  a_workflowId :: "string option"
  a_stepId :: "string option"
  a_preferredAgent :: "string option"
  a_estimatedDuration :: "rat option"

subsection \<open>The registry\<close>

definition getAgent :: "orchestrator \<Rightarrow> string \<Rightarrow> Agent option" where
  "getAgent s aid = find (\<lambda>a. agent_id a = aid) (agents s)"

text \<open>A mutation of the agent object stored under \<open>aid\<close>.\<close>

definition updAgent :: "string \<Rightarrow> (Agent \<Rightarrow> Agent) \<Rightarrow> orchestrator \<Rightarrow> orchestrator" where
  "updAgent aid f s =
     (case findIndex (\<lambda>a. agent_id a = aid) (agents s) of
        None \<Rightarrow> s
      | Some i \<Rightarrow> s\<lparr>agents := (agents s)[i := f (agents s ! i)]\<rparr>)"

text \<open>\<open>Map.prototype.set\<close>: an existing key keeps its place, a new key goes last.\<close>

definition setAgent :: "Agent \<Rightarrow> Agent list \<Rightarrow> Agent list" where
  "setAgent agent as =
     (case findIndex (\<lambda>a. agent_id a = agent_id agent) as of
        None \<Rightarrow> as @ [agent]
      | Some i \<Rightarrow> as[i := agent])"

definition updAssignment ::
  "string \<Rightarrow> (TaskAssignment \<Rightarrow> TaskAssignment) \<Rightarrow> orchestrator \<Rightarrow> orchestrator" where
  "updAssignment tid f s =
     (case assignments s tid of
        None \<Rightarrow> s
      | Some a \<Rightarrow> s\<lparr>assignments := (assignments s)(tid \<mapsto> f a)\<rparr>)"

text \<open>\<open>(agent.activeTasks.length / agent.maxConcurrentTasks) * 100\<close>\<close>

definition computeLoad :: "Agent \<Rightarrow> rat" where
  "computeLoad a = (of_nat (length (activeTasks a)) / of_nat (maxConcurrentTasks a)) * 100"

definition registerAgent :: "Agent \<Rightarrow> orchestrator \<Rightarrow> orchestrator" where
  "registerAgent agent s =
     s\<lparr>agents := setAgent agent (agents s), agentQueue := agentQueue s @ [agent_id agent]\<rparr>"

subsection \<open>Selection\<close>

definition eligible :: "Agent \<Rightarrow> bool" where
  "eligible a = (agent_status a = A_available \<and> currentLoad a < 100)"

text \<open>
  \<open>selectRoundRobin\<close>: the loop moves the head of the queue to its back until the id moved
  is a candidate's. A rotation of the queue is periodic, so a loop that has found no
  candidate after \<open>length queue\<close> rounds never ends: \<open>rotateFind\<close> returns \<open>None\<close>
  for the call that does not return.
\<close>

fun rotateFind :: "nat \<Rightarrow> Agent list \<Rightarrow> string list \<Rightarrow> (Agent \<times> string list) option" where
  "rotateFind 0 cands q = None"
| "rotateFind (Suc n) cands q =
     (case q of
        [] \<Rightarrow> None
      | aid # rest \<Rightarrow>
          (case find (\<lambda>a. agent_id a = aid) cands of
             Some a \<Rightarrow> Some (a, rest @ [aid])
           | None \<Rightarrow> rotateFind n cands (rest @ [aid])))"

definition selectRoundRobin ::
  "Agent \<Rightarrow> Agent list \<Rightarrow> string list \<Rightarrow> (Agent \<times> string list) option" where
  "selectRoundRobin a as q =
     (if q = [] then Some (a, q) else rotateFind (length q) (a # as) q)"

text \<open>
  The selection functions below are called on a non-empty array only; the model takes
  its first element \<open>a\<close> and the rest \<open>as\<close>. \<open>selectLeastLoaded\<close> is a \<open>reduce\<close>
  without initial value.
\<close>

definition selectLeastLoaded :: "Agent \<Rightarrow> Agent list \<Rightarrow> Agent" where
  "selectLeastLoaded a as =
     foldl (\<lambda>least agent. if currentLoad agent < currentLoad least then agent else least) a as"

definition capMatches :: "Requirement \<Rightarrow> AgentCapability \<Rightarrow> bool" where
  "capMatches required cap =
     ((case r_category required of None \<Rightarrow> True | Some c \<Rightarrow> category cap = c) \<and>
      (if truthy (r_skill required) then skill cap = the (r_skill required) else True) \<and>
      (case r_languages required of
         None \<Rightarrow> True
       | Some ls \<Rightarrow>
           list_ex (\<lambda>l. case languages cap of None \<Rightarrow> False | Some cl \<Rightarrow> l \<in> set cl) ls))"

definition capabilityScore :: "Requirement list \<Rightarrow> Agent \<Rightarrow> rat" where
  "capabilityScore reqs agent =
     foldl (\<lambda>score required.
              case find (capMatches required) (capabilities agent) of
                None \<Rightarrow> score
              | Some matching \<Rightarrow> score + of_nat (proficiency matching)) 0 reqs
     * (1 - currentLoad agent / 100)"

text \<open>
  \<open>scores.sort((a, b) => b.score - a.score); return scores[0].agent\<close>: the sort is stable
  and descending, as is the insertion sort \<open>sort_key\<close> on the negated score.
\<close>

definition highestScoring :: "(Agent \<Rightarrow> rat) \<Rightarrow> Agent \<Rightarrow> Agent list \<Rightarrow> Agent" where
  "highestScoring score a as =
     (case sort_key (\<lambda>p. - snd p) (map (\<lambda>agent. (agent, score agent)) (a # as)) of
        [] \<Rightarrow> a
      | p # _ \<Rightarrow> fst p)"

definition selectByCapability :: "Agent \<Rightarrow> Agent list \<Rightarrow> Requirement list option \<Rightarrow> Agent" where
  "selectByCapability a as requiredCapabilities =
     (case requiredCapabilities of
        None \<Rightarrow> selectLeastLoaded a as
      | Some reqs \<Rightarrow>
          if reqs = [] then selectLeastLoaded a as
          else highestScoring (capabilityScore reqs) a as)"

definition performanceScore :: "Requirement list option \<Rightarrow> Agent \<Rightarrow> rat" where
  "performanceScore requiredCapabilities agent =
     (let base = successRate (performance agent);
          boosted =
            (case requiredCapabilities of
               None \<Rightarrow> base
             | Some reqs \<Rightarrow>
                 foldl (\<lambda>score req.
                          if truthy (r_skill req) then
                            (case map_of (specialties (performance agent)) (the (r_skill req)) of
                               None \<Rightarrow> score
                             | Some r \<Rightarrow> score + r / 10)
                          else score) base reqs);
          speed = boosted + (100 - averageCompletionTime (performance agent)) / 10
      in speed * (1 - currentLoad agent / 100))"

definition selectByPerformance :: "Agent \<Rightarrow> Agent list \<Rightarrow> Requirement list option \<Rightarrow> Agent" where
  "selectByPerformance a as requiredCapabilities =
     highestScoring (performanceScore requiredCapabilities) a as"

definition selectHybrid :: "Agent \<Rightarrow> Agent list \<Rightarrow> Requirement list option \<Rightarrow> Agent" where
  "selectHybrid a as requiredCapabilities =
     (let capabilityAgent = selectByCapability a as requiredCapabilities;
          performanceAgent = selectByPerformance a as requiredCapabilities
      in if agent_id capabilityAgent = agent_id performanceAgent then capabilityAgent
         else if currentLoad capabilityAgent < currentLoad performanceAgent then capabilityAgent
         else performanceAgent)"

text \<open>
  \<open>selectAgent\<close> returns the chosen agent (\<open>None\<close> for \<open>null\<close>) and the round-robin
  queue after the call; the outer \<open>None\<close> is the call that does not return.
\<close>

definition selectAgent ::
  "orchestrator \<Rightarrow> Requirement list option \<Rightarrow> string option
     \<Rightarrow> (Agent option \<times> string list) option" where
  "selectAgent s requiredCapabilities preferredAgent =
     (let preferred = (if truthy preferredAgent then
                         (case getAgent s (the preferredAgent) of
                            None \<Rightarrow> None
                          | Some agent \<Rightarrow> if eligible agent then Some agent else None)
                       else None)
      in case preferred of
           Some agent \<Rightarrow> Some (Some agent, agentQueue s)
         | None \<Rightarrow>
            (case filter eligible (agents s) of
               [] \<Rightarrow> Some (None, agentQueue s)
             | a # as \<Rightarrow>
                (case loadBalancingStrategy s of
                   round_robin \<Rightarrow>
                     (case selectRoundRobin a as (agentQueue s) of
                        None \<Rightarrow> None
                      | Some (agent, q) \<Rightarrow> Some (Some agent, q))
                 | least_loaded \<Rightarrow> Some (Some (selectLeastLoaded a as), agentQueue s)
                 | capability_based \<Rightarrow>
                     Some (Some (selectByCapability a as requiredCapabilities), agentQueue s)
                 | performance_based \<Rightarrow>
                     Some (Some (selectByPerformance a as requiredCapabilities), agentQueue s)
                 | hybrid \<Rightarrow>
                     Some (Some (selectHybrid a as requiredCapabilities), agentQueue s))))"

subsection \<open>Assignment and task lifecycle\<close>

definition addTask :: "string \<Rightarrow> Agent \<Rightarrow> Agent" where
  "addTask tid a =
     (let a1 = a\<lparr>activeTasks := activeTasks a @ [tid]\<rparr> in a1\<lparr>currentLoad := computeLoad a1\<rparr>)"

definition removeTask :: "string \<Rightarrow> Agent \<Rightarrow> Agent" where
  "removeTask tid a =
     (let a1 = a\<lparr>activeTasks := filter (\<lambda>t. t \<noteq> tid) (activeTasks a)\<rparr>
      in a1\<lparr>currentLoad := computeLoad a1\<rparr>)"

definition assignTask ::
  "int \<Rightarrow> orchestrator \<Rightarrow> AssignParams \<Rightarrow> ((orch_error + TaskAssignment) \<times> orchestrator) option" where
  "assignTask now s params =
     (case selectAgent s (a_requiredCapabilities params) (a_preferredAgent params) of
        None \<Rightarrow> None
      | Some (None, q) \<Rightarrow> Some (Inl NoAgentAvailable, s\<lparr>agentQueue := q\<rparr>)
      | Some (Some agent, q) \<Rightarrow>
          let assignment =
                \<lparr>taskId = a_taskId params, agentId = agent_id agent,
                 ta_workflowId = a_workflowId params, ta_stepId = a_stepId params,
                 assignedAt = now, ta_startedAt = None, ta_completedAt = None,
                 ta_status = K_assigned,
                 ta_priority = (case a_priority params of Some p \<Rightarrow> p | None \<Rightarrow> medium),
                 ta_estimatedDuration = a_estimatedDuration params, ta_actualDuration = None,
                 retryCount = 0, ta_output = None, ta_error = None\<rparr>;
              s1 = updAgent (agent_id agent) (addTask (a_taskId params)) (s\<lparr>agentQueue := q\<rparr>)
          in Some (Inr assignment,
                   s1\<lparr>assignments := (assignments s1)(a_taskId params \<mapsto> assignment)\<rparr>))"




text \<open>
  \<open>reassignTask\<close>: the least loaded eligible agent other than the assignment's agent takes
  the task; without one the assignment is marked \<open>failed\<close>.
\<close>

definition reassignTask :: "string \<Rightarrow> orchestrator \<Rightarrow> orchestrator" where
  "reassignTask tid s =
     (case assignments s tid of
        None \<Rightarrow> s
      | Some assignment \<Rightarrow>
          let previousAgentId = agentId assignment in
          (case filter (\<lambda>a. agent_id a \<noteq> previousAgentId \<and> eligible a) (agents s) of
             [] \<Rightarrow> updAssignment tid (\<lambda>a. a\<lparr>ta_status := K_failed\<rparr>) s
           | a # as \<Rightarrow>
               let newAgent = selectLeastLoaded a as;
                   s1 = updAssignment tid (\<lambda>a. a\<lparr>agentId := agent_id newAgent,
                                                  ta_status := K_reassigned\<rparr>) s
               in updAgent (agent_id newAgent) (addTask tid) s1))"

definition failTask ::
  "int \<Rightarrow> orchestrator \<Rightarrow> string \<Rightarrow> string \<Rightarrow> bool \<Rightarrow> orch_error option \<times> orchestrator" where
  "failTask now s tid err retry =
     (case assignments s tid of
        None \<Rightarrow> (Some UnknownTask, s)
      | Some assignment \<Rightarrow>
          let s1 = updAgent (agentId assignment)
                     (\<lambda>a. removeTask tid
                            (a\<lparr>performance := (performance a)\<lparr>successRate :=
                                 (successRate (performance a) * of_nat (tasksCompleted (performance a)))
                                   / (of_nat (tasksCompleted (performance a)) + 1)\<rparr>\<rparr>)) s;
              s2 = updAssignment tid (\<lambda>a. a\<lparr>ta_error := Some err,
                                             retryCount := retryCount a + 1\<rparr>) s1
          in if retry \<and> retryCount assignment + 1 < 3 then (None, reassignTask tid s2)
             else (None, updAssignment tid (\<lambda>a. a\<lparr>ta_status := K_failed,
                                                    ta_completedAt := Some now\<rparr>) s2))"



subsection \<open>The default agents and the constructor\<close>

definition cap :: "Category \<Rightarrow> string \<Rightarrow> nat \<Rightarrow> AgentCapability" where
  "cap c sk p =
     \<lparr>category = c, skill = sk, proficiency = p, languages = None, frameworks = None,
      tools = None\<rparr>"

definition claudeOpus :: Agent where
  "claudeOpus =
    \<lparr>agent_id = ''claude-3-opus'', agent_type = claude, agent_name = ''Claude (Opus)'',
      agent_status = A_available,
      capabilities =
        [cap C_analysis ''system_design'' 5, cap C_coding ''architecture'' 5,
         cap C_writing ''documentation'' 5, cap C_review ''code_review'' 4,
         (cap C_coding ''implementation'' 4)
           \<lparr>languages := Some [''typescript'', ''python'', ''rust'', ''go''],
            frameworks := Some [''react'', ''node'', ''django'', ''fastapi'']\<rparr>],
      currentLoad = 0, maxConcurrentTasks = 3, activeTasks = [],
      performance =
        \<lparr>tasksCompleted = 0, averageCompletionTime = 30, successRate = 95,
         specialties = [(''system_design'', 98), (''documentation'', 96), (''code_review'', 94)]\<rparr>\<rparr>"

definition gpt4Turbo :: Agent where
  "gpt4Turbo =
    \<lparr>agent_id = ''gpt-4-turbo'', agent_type = gpt, agent_name = ''GPT-4 Turbo'',
      agent_status = A_available,
      capabilities =
        [cap C_coding ''implementation'' 4, cap C_research ''web_search'' 5,
         cap C_analysis ''data_analysis'' 4, cap C_testing ''test_generation'' 4,
         (cap C_coding ''debugging'' 4)
           \<lparr>languages := Some [''javascript'', ''python'', ''java'', ''c++''],
            frameworks := Some [''express'', ''flask'', ''spring'', ''tensorflow'']\<rparr>],
      currentLoad = 0, maxConcurrentTasks = 5, activeTasks = [],
      performance =
        \<lparr>tasksCompleted = 0, averageCompletionTime = 25, successRate = 92,
         specialties = [(''implementation'', 93), (''debugging'', 91), (''test_generation'', 90)]\<rparr>\<rparr>"

definition geminiPro :: Agent where
  "geminiPro =
    \<lparr>agent_id = ''gemini-pro'', agent_type = gemini, agent_name = ''Gemini Pro'',
      agent_status = A_available,
      capabilities =
        [cap C_coding ''refactoring'' 4, cap C_analysis ''performance_optimization'' 4,
         cap C_research ''quick_answers'' 5,
         (cap C_coding ''script_automation'' 4)
           \<lparr>languages := Some [''python'', ''bash'', ''javascript''],
            tools := Some [''git'', ''docker'', ''kubernetes'']\<rparr>],
      currentLoad = 0, maxConcurrentTasks = 10, activeTasks = [],
      performance =
        \<lparr>tasksCompleted = 0, averageCompletionTime = 15, successRate = 90,
         specialties = [(''refactoring'', 92), (''performance_optimization'', 89),
                        (''script_automation'', 91)]\<rparr>\<rparr>"

definition newOrchestrator :: "engine \<Rightarrow> Strategy \<Rightarrow> orchestrator" where
  "newOrchestrator eng strategy =
     registerAgent geminiPro (registerAgent gpt4Turbo (registerAgent claudeOpus
       \<lparr>agents = [], assignments = Map.empty, loadBalancingStrategy = strategy,
        agentQueue = [], workflowEngine = eng\<rparr>))"

section \<open>Scenarios\<close>

text \<open>
  Concrete inputs for the examples below: identifiers as a caller or the generator may
  supply them, a context store that accepts every call, and the engines reached from a
  fresh engine by the calls named.
\<close>

definition demoUuid :: "nat \<Rightarrow> string" where
  "demoUuid i =
     (if i = 0 then ''wf-1'' else if i = 1 then ''step-1'' else if i = 2 then ''step-2''
      else if i = 3 then ''step-3'' else if i = 4 then ''step-4''
      else if i = 5 then ''step-5'' else ''step-6'')"

definition okCtx :: "string \<Rightarrow> bool" where
  "okCtx sid = True"

definition demoParams :: CreateParams where
  "demoParams =
     \<lparr>p_projectId = ''auth-module'', p_templateId = Some ''feature-development'',
      p_name = ''Implement OAuth2 Integration'', p_description = ''Add OAuth2 support'',
      p_type = None, p_priority = Some high, p_customSteps = None\<rparr>"




definition demoEngine0 :: engine where
  "demoEngine0 = snd (createWorkflow demoUuid 0 newEngine demoParams)"





text \<open>The steps of a workflow created from the feature-development template.\<close>

definition templateSteps :: "(nat \<Rightarrow> string) \<Rightarrow> WorkflowStep list" where
  "templateSteps uuid =
     [instantiate uuid 0 (tpl_steps featureDevelopment ! 0),
      instantiate uuid 1 (tpl_steps featureDevelopment ! 1),
      instantiate uuid 2 (tpl_steps featureDevelopment ! 2),
      instantiate uuid 3 (tpl_steps featureDevelopment ! 3),
      instantiate uuid 4 (tpl_steps featureDevelopment ! 4),
      instantiate uuid 5 (tpl_steps featureDevelopment ! 5)]"



text \<open>
  Orchestrator scenarios: two agents that know \<open>debugging\<close>, with proficiency 5 and 2,
  idle or half loaded; an agent registered with a load that does not fit its tasks; an
  agent with a single slot; and the states reached by the calls named.
\<close>

definition agentA :: Agent where
  "agentA =
    \<lparr>agent_id = ''agent-a'', agent_type = generic, agent_name = ''A'',
      agent_status = A_available, capabilities = [cap C_coding ''debugging'' 5],
      currentLoad = 0, maxConcurrentTasks = 2, activeTasks = [],
      performance = \<lparr>tasksCompleted = 0, averageCompletionTime = 20, successRate = 90,
                      specialties = []\<rparr>\<rparr>"






definition debuggingReq :: Requirement where
  "debuggingReq = \<lparr>r_category = None, r_skill = Some ''debugging'', r_languages = None\<rparr>"

definition debuggingTask :: "string \<Rightarrow> AssignParams" where
  "debuggingTask tid =
     \<lparr>a_taskId = tid, a_description = ''Find the bug'',
      a_requiredCapabilities = Some [debuggingReq],
      a_priority = None, a_workflowId = None, a_stepId = None, a_preferredAgent = None,
      a_estimatedDuration = None\<rparr>"

definition plainTask :: "string \<Rightarrow> string option \<Rightarrow> AssignParams" where
  "plainTask tid preferred =
     (debuggingTask tid)\<lparr>a_requiredCapabilities := None, a_preferredAgent := preferred\<rparr>"

definition orch0 :: orchestrator where
  "orch0 = newOrchestrator newEngine capability_based"

text \<open>The state after an \<open>assignTask\<close> that returns; the state unchanged otherwise.\<close>

definition afterAssign :: "int \<Rightarrow> orchestrator \<Rightarrow> AssignParams \<Rightarrow> orchestrator" where
  "afterAssign now s params = (case assignTask now s params of None \<Rightarrow> s | Some r \<Rightarrow> snd r)"




text \<open>One task, assigned and failed twice with retry: its \<open>retryCount\<close> is 2.\<close>

definition orchFailedTwice :: orchestrator where
  "orchFailedTwice =
     snd (failTask 3 (snd (failTask 2 (afterAssign 1 orch0 (plainTask ''task-1'' None))
                             ''task-1'' ''boom'' True))
            ''task-1'' ''boom'' True)"



section \<open>Notions used in the statements\<close>





definition advances :: "Workflow \<Rightarrow> Workflow \<Rightarrow> bool" where
  "advances w w' =
     list_all2 (\<lambda>s s'. step_name s' = step_name s \<and> step_id s' = step_id s \<and>
                        dependencies s' = dependencies s \<and>
                        (step_status s = S_completed \<longrightarrow> step_status s' = S_completed))
       (steps w) (steps w')"



text \<open>
  The load the specification prescribes, \<open>100 * |activeTasks| / maxConcurrentTasks\<close>; an
  agent whose stored load is that one, with room for at least one task; and a registry
  of such agents.
\<close>

definition specLoad :: "Agent \<Rightarrow> rat" where
  "specLoad a = 100 * of_nat (length (activeTasks a)) / of_nat (maxConcurrentTasks a)"

definition loadOk :: "Agent \<Rightarrow> bool" where
  "loadOk a = (0 < maxConcurrentTasks a \<and> currentLoad a = specLoad a)"

definition loadConsistent :: "orchestrator \<Rightarrow> bool" where
  "loadConsistent s = list_all loadOk (agents s)"


section \<open>Properties of the workflow engine\<close>

subsection \<open>Basic facts\<close>

lemma find_Some_in: "find P xs = Some x \<Longrightarrow> x \<in> set xs \<and> P x"
  by (induction xs) (auto split: if_splits)

lemma findIndex_Some: "findIndex P xs = Some i \<Longrightarrow> i < length xs \<and> P (xs ! i)"
proof (induction xs arbitrary: i)
  case Nil
  then show ?case by simp
next
  case (Cons x xs)
  then show ?case by (auto split: if_splits option.splits)
qed


lemma store_same: "workflows eng wid = Some w \<Longrightarrow> store eng wid w = eng"
  by (simp add: store_def map_upd_triv)


lemma validTransitions_start:
  "validTransitions w T_start =
     (if state w = W_draft then [transitions ! 0]
      else if state w = W_ready then [transitions ! 1] else [])"
  by (cases "state w") (simp_all add: validTransitions_def transitions_def)



lemma transitionWorkflow_start_draft:
  "state w = W_draft \<Longrightarrow> validateWorkflow w \<Longrightarrow>
     transitionWorkflow ctx now w T_start =
       (None, prepareWorkflow (w\<lparr>state := W_ready, metadata := (metadata w)\<lparr>updatedAt := now\<rparr>\<rparr>))"
  by (simp add: transitionWorkflow_def validTransitions_start transitions_def)

lemma transitionWorkflow_start_running:
  "state w = W_running \<Longrightarrow> transitionWorkflow ctx now w T_start = (Some InvalidTransition, w)"
  by (simp add: transitionWorkflow_def validTransitions_start)

lemma prepareReview_fields [simp]:
  "metrics (prepareReview w) = metrics w" "steps (prepareReview w) = steps w"
  "state (prepareReview w) = state w"
  by (auto simp: prepareReview_def split: option.splits)

lemma startNextStep_fields [simp]:
  "metrics (startNextStep w) = metrics w" "state (startNextStep w) = state w"
  "length (steps (startNextStep w)) = length (steps w)"
  by (auto simp: startNextStep_def setStatus_def split: option.splits)



lemma depCompleted_none:
  "\<forall>s \<in> set (steps w). step_status s \<noteq> S_completed \<Longrightarrow> \<not> depCompleted w d"
  by (auto simp: depCompleted_def split: option.splits dest: find_Some_in)

lemma checkDependencies_none:
  "\<forall>s \<in> set (steps w). step_status s \<noteq> S_completed \<Longrightarrow>
     checkDependencies w s = (dependencies s = None \<or> dependencies s = Some [])"
  by (cases "dependencies s"; cases "the (dependencies s)")
     (auto simp: checkDependencies_def depCompleted_none)

subsection \<open>Failing transitions\<close>








subsection \<open>Completing a step\<close>










subsection \<open>Starting a workflow created from the feature-development template\<close>

lemma template_steps:
  "p_templateId params = Some ''feature-development'' \<Longrightarrow>
   steps (fst (createWorkflow uuid t0 eng params)) = templateSteps uuid"
  by (simp add: createWorkflow_def Let_def truthy_def templates_def featureDevelopment_def
        templateSteps_def eval_nat_numeral)

lemma prepare_template:
  assumes "steps w = templateSteps uuid"
  shows "length (steps (prepareWorkflow w)) = 6
     \<and> map step_name (filter (\<lambda>s. step_status s = S_ready \<or> step_status s = S_running)
           (steps (prepareWorkflow w))) = [''Requirements Analysis'']
     \<and> state (prepareWorkflow w) = W_running"
  using assms
  by (simp add: prepareWorkflow_def markReady_def setStatus_def checkDependencies_none
        instantiate_def featureDevelopment_def Let_def startNextStep_def templateSteps_def)

lemma validate_template: "steps w = templateSteps uuid \<Longrightarrow> validateWorkflow w"
  by (simp add: validateWorkflow_def templateSteps_def instantiate_def featureDevelopment_def)

lemma created_fields:
  "workflows (snd (createWorkflow uuid t0 eng params)) (uuid 0)
     = Some (fst (createWorkflow uuid t0 eng params))"
  "state (fst (createWorkflow uuid t0 eng params)) = W_draft"
  "wf_id (fst (createWorkflow uuid t0 eng params)) = uuid 0"
  by (simp_all add: createWorkflow_def Let_def)

text \<open>
  Claim C2, as the code has it. For a workflow freshly created from the
  \<open>feature-development\<close> template, one call of \<open>transition(workflowId, 'start')\<close> succeeds
  and leaves the workflow \<open>running\<close>: the action of the row \<open>draft \<rightarrow> ready\<close> goes
  straight on to \<open>running\<close> once a step is ready. The workflow then has 6 steps, and
  exactly one of them is \<open>ready\<close> or \<open>running\<close>, namely "Requirements Analysis". A
  second \<open>start\<close> is rejected with \<open>InvalidTransition\<close> and changes nothing.
\<close>

theorem start_once_reaches_running:
  assumes "p_templateId params = Some ''feature-development''"
  shows "\<exists>e1 w1.
           transition ctx t1 (snd (createWorkflow uuid t0 eng params)) (uuid 0) T_start = (None, e1)
         \<and> workflows e1 (uuid 0) = Some w1
         \<and> state w1 = W_running
         \<and> length (steps w1) = 6
         \<and> map step_name (filter (\<lambda>s. step_status s = S_ready \<or> step_status s = S_running)
                (steps w1)) = [''Requirements Analysis'']
         \<and> transition ctx t2 e1 (uuid 0) T_start = (Some InvalidTransition, e1)"
proof -
  let ?w0 = "fst (createWorkflow uuid t0 eng params)"
  let ?e0 = "snd (createWorkflow uuid t0 eng params)"
  let ?w1 = "prepareWorkflow (?w0\<lparr>state := W_ready, metadata := (metadata ?w0)\<lparr>updatedAt := t1\<rparr>\<rparr>)"
  let ?e1 = "store ?e0 (uuid 0) ?w1"
  have st: "steps ?w0 = templateSteps uuid"
    using assms by (rule template_steps)
  have first: "transition ctx t1 ?e0 (uuid 0) T_start = (None, ?e1)"
    by (simp add: transition_def created_fields transitionWorkflow_start_draft
          validate_template [OF st])
  have look: "workflows ?e1 (uuid 0) = Some ?w1"
    by (simp add: store_def)
  have prep: "length (steps ?w1) = 6
     \<and> map step_name (filter (\<lambda>s. step_status s = S_ready \<or> step_status s = S_running)
           (steps ?w1)) = [''Requirements Analysis'']
     \<and> state ?w1 = W_running"
    by (rule prepare_template) (simp add: st)
  have second: "transition ctx t2 ?e1 (uuid 0) T_start = (Some InvalidTransition, ?e1)"
    using prep by (simp add: transition_def look transitionWorkflow_start_running store_same)
  show ?thesis
  proof (intro exI conjI)
    show "transition ctx t1 ?e0 (uuid 0) T_start = (None, ?e1)" by (rule first)
    show "workflows ?e1 (uuid 0) = Some ?w1" by (rule look)
    show "state ?w1 = W_running" by (rule prep [THEN conjunct2, THEN conjunct2])
    show "length (steps ?w1) = 6" by (rule prep [THEN conjunct1])
    show "map step_name (filter (\<lambda>s. step_status s = S_ready \<or> step_status s = S_running)
           (steps ?w1)) = [''Requirements Analysis'']"
      by (rule prep [THEN conjunct2, THEN conjunct1])
    show "transition ctx t2 ?e1 (uuid 0) T_start = (Some InvalidTransition, ?e1)" by (rule second)
  qed
qed


theorem start_once_reaches_running_witness:
  "p_templateId demoParams = Some ''feature-development'' \<and>
   (\<exists>e1 w1.
       transition okCtx 1 demoEngine0 ''wf-1'' T_start = (None, e1)
     \<and> workflows e1 ''wf-1'' = Some w1
     \<and> state w1 = W_running
     \<and> length (steps w1) = 6
     \<and> map step_name (filter (\<lambda>s. step_status s = S_ready \<or> step_status s = S_running)
            (steps w1)) = [''Requirements Analysis'']
     \<and> transition okCtx 2 e1 ''wf-1'' T_start = (Some InvalidTransition, e1))"
proof -
  have t: "p_templateId demoParams = Some ''feature-development''"
    by (simp add: demoParams_def)
  have u: "demoUuid 0 = ''wf-1''"
    by (simp add: demoUuid_def)
  show ?thesis
    using start_once_reaches_running [OF t, of okCtx 1 demoUuid 0 newEngine 2] t
    by (simp add: u demoEngine0_def)
qed

text \<open>
  Claim C2 as stated fails: after the first \<open>start\<close> has succeeded, the second is
  rejected.
\<close>

theorem second_start_is_rejected:
  "fst (transition okCtx 1 demoEngine0 ''wf-1'' T_start) = None \<and>
   fst (transition okCtx 2 (snd (transition okCtx 1 demoEngine0 ''wf-1'' T_start)) ''wf-1'' T_start)
     = Some InvalidTransition"
  by code_simp

subsection \<open>Ready steps and their dependencies\<close>




lemma advances_refl: "advances w w"
  by (simp add: advances_def list_all2_same)

lemma advances_trans: "advances a b \<Longrightarrow> advances b c \<Longrightarrow> advances a c"
  by (auto simp: advances_def list_all2_conv_all_nth)











lemma markReady_length [simp]: "length (steps (markReady w i)) = length (steps w)"
  by (simp add: markReady_def setStatus_def Let_def)










lemma allStepsComplete_steps: "steps w' = steps w \<Longrightarrow> allStepsComplete w' = allStepsComplete w"
  by (simp add: allStepsComplete_def)








section \<open>Properties of the agent orchestrator\<close>

subsection \<open>Basic facts\<close>


lemma findIndex_first: "findIndex P xs = Some i \<Longrightarrow> j < i \<Longrightarrow> \<not> P (xs ! j)"
proof (induction xs arbitrary: i j)
  case Nil
  then show ?case by simp
next
  case (Cons x xs)
  then show ?case by (cases j) (auto split: if_splits option.splits)
qed

lemma findIndex_append_new:
  "findIndex P xs = None \<Longrightarrow> P y \<Longrightarrow> findIndex P (xs @ [y]) = Some (length xs)"
  by (induction xs) (auto split: option.splits if_splits)

lemma findIndex_update_same:
  "findIndex P xs = Some i \<Longrightarrow> P y \<Longrightarrow> findIndex P (xs[i := y]) = Some i"
proof (induction xs arbitrary: i)
  case Nil
  then show ?case by simp
next
  case (Cons x xs)
  then show ?case by (cases i) (auto split: if_splits option.splits)
qed

lemma find_findIndex: "find P xs = map_option (\<lambda>i. xs ! i) (findIndex P xs)"
  by (induction xs) (auto split: option.splits)

lemma setAgent_twice: "setAgent a (setAgent a as) = setAgent a as"
proof (cases "findIndex (\<lambda>b. agent_id b = agent_id a) as")
  case None
  then show ?thesis
    by (simp add: setAgent_def findIndex_append_new)
next
  case (Some i)
  then show ?thesis
    by (simp add: setAgent_def findIndex_update_same)
qed

lemma getAgent_setAgent: "find (\<lambda>b. agent_id b = agent_id a) (setAgent a as) = Some a"
proof (cases "findIndex (\<lambda>b. agent_id b = agent_id a) as")
  case None
  then show ?thesis
    by (simp add: setAgent_def find_findIndex findIndex_append_new)
next
  case (Some i)
  then show ?thesis
    using findIndex_Some [OF Some]
    by (simp add: setAgent_def find_findIndex findIndex_update_same)
qed

subsection \<open>Registering an agent twice\<close>

text \<open>
  Claim C9, as the code has it. \<open>registerAgent\<close> replaces the stored record wholesale by
  id and appends the id to the round-robin queue on every call, also when the id is
  registered already. Registering the same agent twice therefore yields the state of
  registering it once, except that the queue holds the id once more.
\<close>

theorem registerAgent_twice:
  "registerAgent a (registerAgent a s) =
     (registerAgent a s)\<lparr>agentQueue := agentQueue (registerAgent a s) @ [agent_id a]\<rparr> \<and>
   agentQueue (registerAgent a s) = agentQueue s @ [agent_id a] \<and>
   getAgent (registerAgent a s) (agent_id a) = Some a"
  by (simp add: registerAgent_def setAgent_twice getAgent_def getAgent_setAgent)

theorem registerAgent_twice_witness:
  "registerAgent agentA (registerAgent agentA orch0) =
     (registerAgent agentA orch0)\<lparr>agentQueue :=
        [''claude-3-opus'', ''gpt-4-turbo'', ''gemini-pro'', ''agent-a'', ''agent-a'']\<rparr> \<and>
   agentQueue (registerAgent agentA orch0) =
     [''claude-3-opus'', ''gpt-4-turbo'', ''gemini-pro'', ''agent-a''] \<and>
   getAgent (registerAgent agentA orch0) ''agent-a'' = Some agentA"
proof -
  have q: "agentQueue orch0 = [''claude-3-opus'', ''gpt-4-turbo'', ''gemini-pro'']"
    by (simp add: orch0_def newOrchestrator_def registerAgent_def claudeOpus_def gpt4Turbo_def
          geminiPro_def)
  have i: "agent_id agentA = ''agent-a''"
    by (simp add: agentA_def)
  show ?thesis
    using registerAgent_twice [of agentA orch0] by (simp add: q i)
qed

text \<open>
  Claim C9 as stated fails: the second registration of an agent changes the round-robin
  queue, so the state after two registrations is not the state after one.
\<close>

theorem registerAgent_twice_differs:
  "agentQueue (registerAgent agentA (registerAgent agentA orch0)) \<noteq>
     agentQueue (registerAgent agentA orch0) \<and>
   registerAgent agentA (registerAgent agentA orch0) \<noteq> registerAgent agentA orch0"
proof -
  have "agentQueue (registerAgent agentA (registerAgent agentA orch0)) \<noteq>
          agentQueue (registerAgent agentA orch0)"
    by (simp add: registerAgent_def)
  then show ?thesis by auto
qed

subsection \<open>Load consistency\<close>





lemma loadOk_fields [simp]:
  "loadOk (a\<lparr>performance := p\<rparr>) = loadOk a"
  "loadOk (a\<lparr>agent_status := st\<rparr>) = loadOk a"
  by (simp_all add: loadOk_def specLoad_def)




lemma loadConsistent_agents:
  "agents s' = agents s \<Longrightarrow> loadConsistent s' = loadConsistent s"
  by (simp add: loadConsistent_def)

lemma agents_updAssignment [simp]: "agents (updAssignment tid f s) = agents s"
  by (simp add: updAssignment_def split: option.splits)















subsection \<open>Failing a task\<close>

lemma selectLeastLoaded_in: "selectLeastLoaded b bs \<in> set (b # bs)"
proof -
  have "foldl (\<lambda>least agent. if currentLoad agent < currentLoad least then agent else least) x xs
          \<in> insert x (set xs)" for x xs
    by (induction xs arbitrary: x) auto
  then show ?thesis by (simp add: selectLeastLoaded_def)
qed

lemma filter_update_excluded:
  "i < length xs \<Longrightarrow> \<not> Q (xs ! i) \<Longrightarrow> \<not> Q y \<Longrightarrow> filter Q (xs[i := y]) = filter Q xs"
proof (induction xs arbitrary: i)
  case Nil
  then show ?case by simp
next
  case (Cons x xs)
  then show ?case by (cases i) auto
qed

lemma others_updAgent:
  assumes "\<And>b. agent_id (f b) = agent_id b"
  shows "filter (\<lambda>b. agent_id b \<noteq> aid \<and> Q b) (agents (updAgent aid f s)) =
         filter (\<lambda>b. agent_id b \<noteq> aid \<and> Q b) (agents s)"
  by (auto simp: updAgent_def assms split: option.splits dest!: findIndex_Some
        intro!: filter_update_excluded)

lemma assignments_updAgent [simp]: "assignments (updAgent aid f s) = assignments s"
  by (simp add: updAgent_def split: option.splits)

lemma assignments_updAssignment:
  "assignments (updAssignment tid f s) t =
     (if t = tid then map_option f (assignments s tid) else assignments s t)"
  by (simp add: updAssignment_def split: option.splits)

lemma removeTask_id [simp]: "agent_id (removeTask tid a) = agent_id a"
  by (simp add: removeTask_def Let_def)

lemma addTask_id [simp]: "agent_id (addTask tid a) = agent_id a"
  by (simp add: addTask_def Let_def)

lemma reassignTask_assignment:
  assumes "assignments s tid = Some a"
  shows "assignments (reassignTask tid s) tid =
     (case filter (\<lambda>b. agent_id b \<noteq> agentId a \<and> eligible b) (agents s) of
        [] \<Rightarrow> Some (a\<lparr>ta_status := K_failed\<rparr>)
      | b # bs \<Rightarrow> Some (a\<lparr>agentId := agent_id (selectLeastLoaded b bs),
                            ta_status := K_reassigned\<rparr>))"
  using assms
  by (simp add: reassignTask_def Let_def assignments_updAssignment split: list.splits)

text \<open>
  Claim C5, as the code has it. \<open>failTask(taskId, error, retry = true)\<close> on an existing
  assignment increments \<open>retryCount\<close> first and compares the new value with 3. If the
  count before the call is below 2, the task is reassigned: its status becomes
  \<open>reassigned\<close>, with the least loaded eligible agent other than the failing one, when
  such an agent exists, and \<open>failed\<close> otherwise. If the count before the call is 2 or
  more, the status becomes \<open>failed\<close>, \<open>completedAt\<close> is stamped and the assignment
  keeps its agent.
\<close>

theorem failTask_retry_bound:
  assumes "assignments s tid = Some a"
  shows "fst (failTask now s tid err True) = None \<and>
         (\<exists>a'. assignments (snd (failTask now s tid err True)) tid = Some a' \<and>
            retryCount a' = retryCount a + 1 \<and>
            (if retryCount a + 1 < 3
             then (case filter (\<lambda>b. agent_id b \<noteq> agentId a \<and> eligible b) (agents s) of
                     [] \<Rightarrow> ta_status a' = K_failed \<and> agentId a' = agentId a
                   | b # bs \<Rightarrow> ta_status a' = K_reassigned \<and>
                              agentId a' = agent_id (selectLeastLoaded b bs) \<and>
                              agentId a' \<noteq> agentId a)
             else ta_status a' = K_failed \<and> agentId a' = agentId a \<and>
                  ta_completedAt a' = Some now))"
proof -
  define f where "f = (\<lambda>b. removeTask tid
                            (b\<lparr>performance := (performance b)\<lparr>successRate :=
                                 (successRate (performance b) * of_nat (tasksCompleted (performance b)))
                                   / (of_nat (tasksCompleted (performance b)) + 1)\<rparr>\<rparr>))"
  define a1 where "a1 = a\<lparr>ta_error := Some err, retryCount := retryCount a + 1\<rparr>"
  define s2 where "s2 = updAssignment tid (\<lambda>x. x\<lparr>ta_error := Some err,
                                             retryCount := retryCount x + 1\<rparr>) (updAgent (agentId a) f s)"
  let ?cands = "filter (\<lambda>b. agent_id b \<noteq> agentId a \<and> eligible b) (agents s)"
  have unfold: "failTask now s tid err True =
      (if retryCount a + 1 < 3 then (None, reassignTask tid s2)
       else (None, updAssignment tid (\<lambda>x. x\<lparr>ta_status := K_failed,
                                              ta_completedAt := Some now\<rparr>) s2))"
    using assms by (simp add: failTask_def Let_def s2_def f_def)
  have look2: "assignments s2 tid = Some a1"
    using assms by (simp add: s2_def a1_def assignments_updAssignment)
  have cands2: "filter (\<lambda>b. agent_id b \<noteq> agentId a1 \<and> eligible b) (agents s2) = ?cands"
    by (simp add: s2_def a1_def others_updAgent f_def)
  show ?thesis
  proof (cases "retryCount a + 1 < 3")
    case False
    then show ?thesis
      using unfold look2 by (simp add: assignments_updAssignment a1_def)
  next
    case True
    show ?thesis
    proof (cases ?cands)
      case Nil
      then show ?thesis
        using True unfold reassignTask_assignment [OF look2] cands2 by (simp add: a1_def)
    next
      case (Cons b bs)
      have "selectLeastLoaded b bs \<in> set ?cands"
        using selectLeastLoaded_in [of b bs] Cons by simp
      then have "agent_id (selectLeastLoaded b bs) \<noteq> agentId a"
        by simp
      then show ?thesis
        using True Cons unfold reassignTask_assignment [OF look2] cands2 by (simp add: a1_def)
    qed
  qed
qed



lemma orchFailedTwice_has: "assignments orchFailedTwice ''task-1'' \<noteq> None"
  by code_simp

lemma assigned_has: "assignments (afterAssign 1 orch0 (plainTask ''task-1'' None)) ''task-1'' \<noteq> None"
  by code_simp

theorem failTask_retry_bound_witness:
  "assignments (afterAssign 1 orch0 (plainTask ''task-1'' None)) ''task-1'' \<noteq> None \<and>
   retryCount (the (assignments (afterAssign 1 orch0 (plainTask ''task-1'' None)) ''task-1'')) = 0 \<and>
   (\<exists>a'. assignments (snd (failTask 2 (afterAssign 1 orch0 (plainTask ''task-1'' None))
                              ''task-1'' ''boom'' True)) ''task-1'' = Some a' \<and>
         retryCount a' = 1 \<and> ta_status a' = K_reassigned \<and>
         agentId a' \<noteq> agentId (the (assignments (afterAssign 1 orch0 (plainTask ''task-1'' None))
                                        ''task-1''))) \<and>
   assignments orchFailedTwice ''task-1'' \<noteq> None \<and>
   retryCount (the (assignments orchFailedTwice ''task-1'')) = 2 \<and>
   (\<exists>a'. assignments (snd (failTask 4 orchFailedTwice ''task-1'' ''boom'' True)) ''task-1'' = Some a' \<and>
         retryCount a' = 3 \<and> ta_status a' = K_failed \<and> ta_completedAt a' = Some 4)"
proof -
  let ?s = "afterAssign 1 orch0 (plainTask ''task-1'' None)"
  let ?a = "the (assignments ?s ''task-1'')"
  let ?b = "the (assignments orchFailedTwice ''task-1'')"
  have a: "assignments ?s ''task-1'' = Some ?a"
    using assigned_has by simp
  have b: "assignments orchFailedTwice ''task-1'' = Some ?b"
    using orchFailedTwice_has by simp
  have ra: "retryCount ?a = 0"
    by code_simp
  have rb: "retryCount ?b = 2"
    by code_simp
  have "filter (\<lambda>b. agent_id b \<noteq> agentId ?a \<and> eligible b) (agents ?s) \<noteq> []"
    by code_simp
  then obtain c cs where
    cands: "filter (\<lambda>b. agent_id b \<noteq> agentId ?a \<and> eligible b) (agents ?s) = c # cs"
    by (cases "filter (\<lambda>b. agent_id b \<noteq> agentId ?a \<and> eligible b) (agents ?s)") auto
  have first: "\<exists>a'. assignments (snd (failTask 2 ?s ''task-1'' ''boom'' True)) ''task-1'' = Some a' \<and>
         retryCount a' = 1 \<and> ta_status a' = K_reassigned \<and> agentId a' \<noteq> agentId ?a"
    using failTask_retry_bound [OF a, of 2 "''boom''"] by (auto simp: ra cands)
  have third: "\<exists>a'. assignments (snd (failTask 4 orchFailedTwice ''task-1'' ''boom'' True)) ''task-1''
                       = Some a' \<and>
         retryCount a' = 3 \<and> ta_status a' = K_failed \<and> ta_completedAt a' = Some 4"
    using failTask_retry_bound [OF b, of 4 "''boom''"] by (auto simp: rb)
  show ?thesis
    using assigned_has orchFailedTwice_has ra rb first third by blast
qed

text \<open>
  Claim C5 as stated fails: a task whose \<open>retryCount\<close> is 2 before the call, so below 3,
  is marked \<open>failed\<close> although two other eligible agents exist.
\<close>

theorem third_failure_is_final:
  "assignments orchFailedTwice ''task-1'' \<noteq> None \<and>
   retryCount (the (assignments orchFailedTwice ''task-1'')) = 2 \<and>
   map agent_id
     (filter (\<lambda>b. agent_id b \<noteq> agentId (the (assignments orchFailedTwice ''task-1'')) \<and> eligible b)
        (agents orchFailedTwice)) = [''gpt-4-turbo'', ''gemini-pro''] \<and>
   fst (failTask 4 orchFailedTwice ''task-1'' ''boom'' True) = None \<and>
   ta_status (the (assignments (snd (failTask 4 orchFailedTwice ''task-1'' ''boom'' True))
                     ''task-1'')) = K_failed"
  by code_simp

subsection \<open>Selection by capability\<close>








subsection \<open>An agent going offline\<close>


lemma updAgent_map:
  assumes "\<And>a. g (f a) = g a"
  shows "map g (agents (updAgent aid f s)) = map g (agents s)"
  by (auto simp: updAgent_def map_update assms list_update_same_conv
        split: option.splits dest!: findIndex_Some)

lemma addTask_status [simp]: "agent_status (addTask tid a) = agent_status a"
  by (simp add: addTask_def Let_def)

lemma reassignTask_ids [simp]:
  "map agent_id (agents (reassignTask t s)) = map agent_id (agents s)"
  by (simp add: reassignTask_def Let_def updAgent_map split: option.splits list.splits)

lemma reassignTask_statuses [simp]:
  "map agent_status (agents (reassignTask t s)) = map agent_status (agents s)"
  by (simp add: reassignTask_def Let_def updAgent_map split: option.splits list.splits)

lemma reassign_fold_maps [simp]:
  "map agent_id (agents (foldl (\<lambda>st tid. reassignTask tid st) s ts)) = map agent_id (agents s)"
  "map agent_status (agents (foldl (\<lambda>st tid. reassignTask tid st) s ts)) = map agent_status (agents s)"
  by (induction ts arbitrary: s) simp_all









lemma addTask_fields [simp]:
  "activeTasks (addTask tid a) = activeTasks a @ [tid]"
  "maxConcurrentTasks (addTask tid a) = maxConcurrentTasks a"
  by (simp_all add: addTask_def Let_def)












end
